theory Spec2Isabelle
  imports
    Main
    "HOL-Library.Char_ord"
    "HOL-Library.List_Lexorder"
    "HOL-Library.Product_Lexorder"
    "HOL-Library.Option_ord"
    "HOL-Library.AList"
    "HOL-Library.Multiset"
begin

section \<open>JavaScript values\<close>

text \<open>
  Ids, names and message texts are JavaScript strings, modelled as \<open>string\<close> with the
  lexicographic order of \<open>List_Lexorder\<close> over \<open>Char_ord\<close> (the order
  \<open>Array.prototype.sort\<close> uses on strings). A value that may be \<open>null\<close> or
  \<open>undefined\<close> is a \<open>string option\<close>, both collapsed to \<open>None\<close>.
  \<open>truthy\<close> is the test of \<open>if (x)\<close> and \<open>!x\<close> on such a value: \<open>null\<close>,
  \<open>undefined\<close> and the empty string are falsy. \<open>js_or a b\<close> is \<open>a || b\<close>.
\<close>

fun truthy :: "string option \<Rightarrow> bool" where
  "truthy None = False"
| "truthy (Some s) = (s \<noteq> [])"

definition js_or :: "string option \<Rightarrow> string option \<Rightarrow> string option" where
  "js_or a b = (if truthy a then a else b)"

text \<open>
  An object literal with two computed keys, \<open>{[k1]: v1, [k2]: v2}\<close>: when the keys are
  equal the later property replaces the earlier one.
\<close>

definition object2 :: "string \<Rightarrow> 'v \<Rightarrow> string \<Rightarrow> 'v \<Rightarrow> (string \<times> 'v) list" where
  "object2 k1 v1 k2 v2 = (if k1 = k2 then [(k2, v2)] else [(k1, v1), (k2, v2)])"

section \<open>Documents and the store\<close>

text \<open>The \<open>currentUser\<close> state of \<open>ChatScreen\<close> (chat.jsx, lines 55 and 69-72).\<close>

record user =
  uid :: string
  displayName :: "string option"
  email :: "string option"
  profileImage :: "string option"

text \<open>The route parameters read by \<open>useLocalSearchParams\<close> (chat.jsx, line 52).\<close>

record chat_props =
  recipientId :: "string option"
  paramRecipientName :: "string option"
  paramRecipientImage :: "string option"
  paramVehicleName :: "string option"

text \<open>
  A document of the \<open>chats\<close> collection, as \<open>setDoc\<close> writes it (chat.jsx,
  lines 162-177). Server timestamps are natural numbers.
\<close>

record chat_doc =
  participants :: "string list"
  createdAt :: nat
  lastMessageText :: string
  lastMessageTimestamp :: nat
  participantNames :: "(string \<times> string option) list"
  participantImages :: "(string \<times> string option) list"
  vehicleName :: "string option"

text \<open>
  A document of a \<open>messages\<close> subcollection (chat.jsx, lines 181-187). The fields
  \<open>text\<close>, \<open>senderId\<close>, \<open>senderName\<close> and \<open>senderImage\<close> are the same in the store
  and in the data a snapshot delivers; \<open>createdAt\<close> differs.

  In the store, which holds the committed documents, the field is missing
  (\<open>NoField\<close>), holds null (\<open>NullValue\<close>) or holds a server timestamp (\<open>Stamp\<close>);
  \<open>addDoc\<close> with \<open>createdAt: serverTimestamp()\<close> stores a \<open>Stamp\<close>. A write that
  the server has not yet stamped is not part of the store.

  In the data \<open>doc.data()\<close> delivers to the listener, \<open>msg_createdAt\<close> is the timestamp
  or \<open>None\<close> when \<open>data.createdAt\<close> is null or undefined, as it also is in a local
  snapshot while the server timestamp of a write is pending.
\<close>

record message_fields =
  msg_text :: string
  senderId :: string
  senderName :: "string option"
  senderImage :: "string option"

record message_doc = message_fields +
  msg_createdAt :: "nat option"

datatype created_field = NoField | NullValue | Stamp nat

record stored_message = message_fields +
  createdAtField :: created_field

definition docData :: "stored_message \<Rightarrow> message_doc" where
  "docData s =
     \<lparr>msg_text = msg_text s, senderId = senderId s, senderName = senderName s,
      senderImage = senderImage s,
      msg_createdAt = (case createdAtField s of Stamp t \<Rightarrow> Some t | _ \<Rightarrow> None)\<rparr>"

text \<open>The calls \<open>ChatScreen\<close> makes to the Firestore SDK.\<close>

datatype store_call =
    CallQueryChats "string list"
  | CallListenMessages string
  | CallSetDoc string
  | CallAddDoc string
  | CallUpdateDoc string

fun is_read :: "store_call \<Rightarrow> bool" where
  "is_read (CallQueryChats _) = True"
| "is_read (CallListenMessages _) = True"
| "is_read _ = False"

text \<open>
  The store: the \<open>chats\<close> documents by id, the message documents as
  (chat id, message id, data) in the order they were appended, and the log of the SDK
  calls issued so far.
\<close>

record firestore =
  chats :: "(string \<times> chat_doc) list"
  chat_messages :: "(string \<times> string \<times> stored_message) list"
  calls :: "store_call list"

datatype store_error = SetDocFailed | AddDocFailed | UpdateDocFailed

text \<open>
  How a call of an async function ends: its promise is fulfilled (\<open>Returned\<close>) or an
  awaited store call rejected and the rejection propagates (\<open>Rejected\<close>).
\<close>

datatype outcome = Returned | Rejected store_error

text \<open>
  What the store decides during one \<open>onSend\<close>: the auto-generated ids of
  \<open>doc(collection(db, "chats"))\<close> and of \<open>addDoc\<close>, the value of
  \<open>serverTimestamp()\<close> in each write, and whether each write succeeds.
\<close>

record send_env =
  newChatId :: string
  newMessageId :: string
  setDocTime :: nat
  addDocTime :: nat
  updateDocTime :: nat
  setDocOk :: bool
  addDocOk :: bool
  updateDocOk :: bool

definition logCall :: "store_call \<Rightarrow> firestore \<Rightarrow> firestore" where
  "logCall c db = db\<lparr>calls := calls db @ [c]\<rparr>"

text \<open>\<open>setDoc(ref, data)\<close>: writes the whole document, creating it when absent.\<close>

definition setDoc :: "bool \<Rightarrow> string \<Rightarrow> chat_doc \<Rightarrow> firestore \<Rightarrow> outcome \<times> firestore" where
  "setDoc ok ref d db =
     (let db1 = logCall (CallSetDoc ref) db
      in if ok then (Returned, db1\<lparr>chats := AList.update ref d (chats db1)\<rparr>)
         else (Rejected SetDocFailed, db1))"

text \<open>
  \<open>addDoc(collection(ref, "messages"), data)\<close>: appends a message document under a
  store-generated id; the parent chat document need not exist.
\<close>

definition addDoc :: "bool \<Rightarrow> string \<Rightarrow> string \<Rightarrow> stored_message \<Rightarrow> firestore \<Rightarrow> outcome \<times> firestore" where
  "addDoc ok ref mid d db =
     (let db1 = logCall (CallAddDoc ref) db
      in if ok then (Returned, db1\<lparr>chat_messages := chat_messages db1 @ [(ref, mid, d)]\<rparr>)
         else (Rejected AddDocFailed, db1))"

text \<open>
  \<open>updateDoc(ref, {lastMessageText, lastMessageTimestamp})\<close>: changes the two fields of
  an existing document and rejects when the document does not exist.
\<close>

definition updateDoc :: "bool \<Rightarrow> string \<Rightarrow> string \<Rightarrow> nat \<Rightarrow> firestore \<Rightarrow> outcome \<times> firestore" where
  "updateDoc ok ref txt t db =
     (let db1 = logCall (CallUpdateDoc ref) db
      in if ok \<and> map_of (chats db1) ref \<noteq> None
         then (Returned,
               db1\<lparr>chats := map (\<lambda>(i, d). if i = ref
                                 then (i, d\<lparr>lastMessageText := txt, lastMessageTimestamp := t\<rparr>)
                                 else (i, d)) (chats db1)\<rparr>)
         else (Rejected UpdateDocFailed, db1))"

text \<open>
  \<open>query(collection(db, "chats"), where("participants", "==", ps), limit(1))\<close>: the
  matching documents in document-id order, cut to one.
\<close>

definition chatsQuery :: "string list \<Rightarrow> firestore \<Rightarrow> (string \<times> chat_doc) list" where
  "chatsQuery ps db = take 1 (sort_key fst (filter (\<lambda>(i, d). participants d = ps) (chats db)))"

text \<open>
  \<open>messagesOf cid db\<close> is the \<open>messages\<close> subcollection of chat \<open>cid\<close>, in the order
  the documents were appended.
\<close>

definition messagesOf :: "string \<Rightarrow> firestore \<Rightarrow> (string \<times> stored_message) list" where
  "messagesOf cid db = map snd (filter (\<lambda>(c, m). c = cid) (chat_messages db))"

text \<open>
  \<open>query(messagesRef, orderBy("createdAt", "desc"))\<close>. A document without the field
  is not in the result. The others come in descending order of \<open>createdAt\<close>, a
  timestamp above null, and equal values in descending order of document id;
  \<open>storedKey\<close> is that sort key (\<open>None\<close> below every \<open>Some\<close>), and \<open>orderKey\<close> the
  same key read off the delivered data.
\<close>

definition hasCreatedAt :: "string \<times> stored_message \<Rightarrow> bool" where
  "hasCreatedAt doc = (case doc of (i, s) \<Rightarrow> createdAtField s \<noteq> NoField)"

definition storedKey :: "string \<times> stored_message \<Rightarrow> nat option \<times> string" where
  "storedKey doc =
     (case doc of (i, s) \<Rightarrow> (case createdAtField s of Stamp t \<Rightarrow> Some t | _ \<Rightarrow> None, i))"


definition snapshotDoc :: "string \<times> stored_message \<Rightarrow> string \<times> message_doc" where
  "snapshotDoc doc = (case doc of (i, s) \<Rightarrow> (i, docData s))"

definition messagesQuery :: "string \<Rightarrow> firestore \<Rightarrow> (string \<times> message_doc) list" where
  "messagesQuery cid db =
     map snapshotDoc (rev (sort_key storedKey (filter hasCreatedAt (messagesOf cid db))))"

section \<open>ChatScreen (chat.jsx)\<close>

text \<open>The message objects handed to GiftedChat (chat.jsx, lines 119-128).\<close>

record gifted_user =
  user_id :: string
  name :: "string option"
  avatar :: "string option"

record 'd gifted_message =
  m_id :: string
  m_text :: string
  m_createdAt :: "'d option"
  m_user :: gifted_user

text \<open>The component state: \<open>messages\<close>, \<open>currentUser\<close> and \<open>chatDocId\<close>.\<close>

record 'd chat_state =
  messages :: "'d gifted_message list"
  currentUser :: "user option"
  chatDocId :: "string option"

text \<open>\<open>[currentUser.uid, recipientId].sort()\<close> (chat.jsx, lines 90 and 151).\<close>

definition participantsOf :: "string \<Rightarrow> string \<Rightarrow> string list" where
  "participantsOf u r = sort [u, r]"

text \<open>
  The callback of the messages listener (chat.jsx, lines 117-129). \<open>toDate\<close> is the
  SDK's conversion of a Firestore timestamp to a \<open>Date\<close>, taken as a parameter;
  \<open>data.createdAt?.toDate()\<close> applies it only when the field is there.
\<close>

definition projectMessage :: "(nat \<Rightarrow> 'd) \<Rightarrow> string \<times> message_doc \<Rightarrow> 'd gifted_message" where
  "projectMessage toDate doc =
     (case doc of (i, d) \<Rightarrow>
        \<lparr>m_id = i,
         m_text = msg_text d,
         m_createdAt = (case msg_createdAt d of None \<Rightarrow> None | Some t \<Rightarrow> Some (toDate t)),
         m_user = \<lparr>user_id = senderId d, name = senderName d, avatar = senderImage d\<rparr>\<rparr>)"

definition loadedMessages :: "(nat \<Rightarrow> 'd) \<Rightarrow> (string \<times> message_doc) list \<Rightarrow> 'd gifted_message list" where
  "loadedMessages toDate docs = map (projectMessage toDate) docs"

text \<open>
  The effect that finds the chat document and listens for messages (chat.jsx, lines
  85-141), run once together with the first delivery of each of its two listeners. The
  \<open>chatDocId\<close> read at line 111 is the value the effect closed over, that of \<open>st\<close>.
\<close>

definition resolveEffect ::
  "(nat \<Rightarrow> 'd) \<Rightarrow> chat_props \<Rightarrow> 'd chat_state \<Rightarrow> firestore \<Rightarrow> 'd chat_state \<times> firestore" where
  "resolveEffect toDate props st db =
     (case (currentUser st, recipientId props) of
        (Some cu, Some (c # cs)) \<Rightarrow>
          (let ps = participantsOf (uid cu) (c # cs);
               db1 = logCall (CallQueryChats ps) db;
               found = (case chatsQuery ps db1 of [] \<Rightarrow> None | (i, d) # rest \<Rightarrow> Some i);
               st1 = st\<lparr>chatDocId := found\<rparr>
           in (case js_or (chatDocId st) found of
                 Some (k # ks) \<Rightarrow>
                   (st1\<lparr>messages := loadedMessages toDate (messagesQuery (k # ks) db1)\<rparr>,
                    logCall (CallListenMessages (k # ks)) db1)
               | _ \<Rightarrow> (st1, db1)))
      | _ \<Rightarrow> (st, db))"

text \<open>\<open>onSend\<close> (chat.jsx, lines 144-196).\<close>

definition onSend ::
  "send_env \<Rightarrow> chat_props \<Rightarrow> 'd chat_state \<Rightarrow> firestore \<Rightarrow> 'd gifted_message list
     \<Rightarrow> outcome \<times> 'd chat_state \<times> firestore" where
  "onSend env props st db newMessages =
     (case (currentUser st, recipientId props, newMessages) of
        (Some cu, Some (c # cs), messageToSend # rest) \<Rightarrow>
          (let rid = c # cs;
               txt = m_text messageToSend;
               ps = participantsOf (uid cu) rid;
               (created, currentChatRef, st1, db1) =
                 (case chatDocId st of
                    Some (k # ks) \<Rightarrow> (Returned, k # ks, st, db)
                  | _ \<Rightarrow>
                      (let ref = newChatId env;
                           (r, db') = setDoc (setDocOk env) ref
                              \<lparr>participants = ps,
                               createdAt = setDocTime env,
                               lastMessageText = txt,
                               lastMessageTimestamp = setDocTime env,
                               participantNames =
                                 object2 (uid cu) (js_or (displayName cu) (email cu))
                                         rid (paramRecipientName props),
                               participantImages =
                                 object2 (uid cu) (js_or (profileImage cu) None)
                                         rid (js_or (paramRecipientImage props) None),
                               vehicleName = js_or (paramVehicleName props) None\<rparr> db
                       in (r, ref, st\<lparr>chatDocId := Some ref\<rparr>, db')))
           in (case created of
                 Rejected e \<Rightarrow> (Rejected e, st1, db1)
               | Returned \<Rightarrow>
                   (case addDoc (addDocOk env) currentChatRef (newMessageId env)
                           \<lparr>msg_text = txt,
                            senderId = uid cu,
                            senderName = js_or (displayName cu) (email cu),
                            senderImage = js_or (profileImage cu) None,
                            createdAtField = Stamp (addDocTime env)\<rparr> db1 of
                      (Rejected e, db2) \<Rightarrow> (Rejected e, st1, db2)
                    | (Returned, db2) \<Rightarrow>
                        (case updateDoc (updateDocOk env) currentChatRef txt (updateDocTime env) db2 of
                           (r, db3) \<Rightarrow> (r, st1, db3)))))
      | _ \<Rightarrow> (Returned, st, db))"

section \<open>Two devices on one store\<close>

text \<open>
  Two users, each with a \<open>ChatScreen\<close> open on the other, against one store. An
  event is one run of the resolving effect or one \<open>onSend\<close> on one device; the
  events of the two devices interleave in any order.
\<close>

datatype device = DeviceA | DeviceB

datatype 'd event = Resolve device | Send device send_env "'d gifted_message list"

record 'd system =
  store :: firestore
  propsA :: chat_props
  stateA :: "'d chat_state"
  propsB :: chat_props
  stateB :: "'d chat_state"

fun step :: "(nat \<Rightarrow> 'd) \<Rightarrow> 'd event \<Rightarrow> 'd system \<Rightarrow> 'd system" where
  "step toDate (Resolve DeviceA) s =
     (case resolveEffect toDate (propsA s) (stateA s) (store s) of
        (st, db) \<Rightarrow> s\<lparr>stateA := st, store := db\<rparr>)"
| "step toDate (Resolve DeviceB) s =
     (case resolveEffect toDate (propsB s) (stateB s) (store s) of
        (st, db) \<Rightarrow> s\<lparr>stateB := st, store := db\<rparr>)"
| "step toDate (Send DeviceA env ms) s =
     (case onSend env (propsA s) (stateA s) (store s) ms of
        (r, st, db) \<Rightarrow> s\<lparr>stateA := st, store := db\<rparr>)"
| "step toDate (Send DeviceB env ms) s =
     (case onSend env (propsB s) (stateB s) (store s) ms of
        (r, st, db) \<Rightarrow> s\<lparr>stateB := st, store := db\<rparr>)"

fun run :: "(nat \<Rightarrow> 'd) \<Rightarrow> 'd event list \<Rightarrow> 'd system \<Rightarrow> 'd system" where
  "run toDate [] s = s"
| "run toDate (e # es) s = run toDate es (step toDate e s)"

text \<open>The chat documents of a pair of users.\<close>

definition chatsOfPair :: "string \<Rightarrow> string \<Rightarrow> firestore \<Rightarrow> (string \<times> chat_doc) list" where
  "chatsOfPair a b db = filter (\<lambda>(i, d). set (participants d) = {a, b}) (chats db)"

section \<open>NewChatScreen\<close>

text \<open>A document of the \<open>users\<close> collection, the fields \<open>fetchUsers\<close> reads.\<close>

record user_doc =
  ud_displayName :: "string option"
  ud_fullName :: "string option"
  ud_email :: "string option"
  ud_profileImage :: "string option"

record listed_user =
  lu_id :: string
  lu_displayName :: "string option"
  lu_profileImage :: "string option"

record new_chat_state =
  loading :: bool
  users :: "listed_user list"

datatype 'a listened = Snapshot 'a | ListenError

text \<open>The snapshot callback of \<open>fetchUsers\<close> (lines 46-53 of the screen's file).\<close>

definition fetchedUsers :: "string \<Rightarrow> (string \<times> user_doc) list \<Rightarrow> listed_user list" where
  "fetchedUsers currentUserUid docs =
     map (\<lambda>(i, d). \<lparr>lu_id = i,
                    lu_displayName = js_or (js_or (ud_displayName d) (ud_fullName d)) (ud_email d),
                    lu_profileImage = js_or (ud_profileImage d) None\<rparr>)
         (filter (\<lambda>(i, d). i \<noteq> currentUserUid) docs)"

text \<open>
  \<open>fetchUsers\<close> with the first delivery of its listener (lines 27-62): no listener is
  started without a current user id.
\<close>

definition fetchUsers ::
  "string option \<Rightarrow> (string \<times> user_doc) list listened \<Rightarrow> new_chat_state \<Rightarrow> new_chat_state" where
  "fetchUsers currentUserUid delivered st =
     (case currentUserUid of
        Some (c # cs) \<Rightarrow>
          (case delivered of
             Snapshot docs \<Rightarrow> st\<lparr>loading := False, users := fetchedUsers (c # cs) docs\<rparr>
           | ListenError \<Rightarrow> st\<lparr>loading := False\<rparr>)
      | _ \<Rightarrow> st\<lparr>loading := False\<rparr>)"

section \<open>Example inputs\<close>

text \<open>Views of a store used to state results: who is in which chat, and which texts are logged.\<close>

definition chatParticipants :: "firestore \<Rightarrow> (string \<times> string list) list" where
  "chatParticipants db = map (\<lambda>(i, d). (i, participants d)) (chats db)"

definition loggedTexts :: "firestore \<Rightarrow> (string \<times> string \<times> string) list" where
  "loggedTexts db = map (\<lambda>(c, i, d). (c, i, msg_text d)) (chat_messages db)"


text \<open>A timestamp conversion for the examples: dates are the timestamps themselves.\<close>

definition sameInstant :: "nat \<Rightarrow> nat" where
  "sameInstant t = t"

definition emptyStore :: firestore where
  "emptyStore = \<lparr>chats = [], chat_messages = [], calls = []\<rparr>"

definition userU1 :: user where
  "userU1 = \<lparr>uid = ''u1'', displayName = Some ''Ann'', email = Some ''ann@example.org'',
               profileImage = None\<rparr>"

definition userU2 :: user where
  "userU2 = \<lparr>uid = ''u2'', displayName = None, email = Some ''bob@example.org'',
               profileImage = Some ''bob.png''\<rparr>"

definition propsTo :: "string \<Rightarrow> chat_props" where
  "propsTo r = \<lparr>recipientId = Some r, paramRecipientName = Some ''Peer'',
                 paramRecipientImage = None, paramVehicleName = None\<rparr>"

definition freshState :: "user \<Rightarrow> nat chat_state" where
  "freshState u = \<lparr>messages = [], currentUser = Some u, chatDocId = None\<rparr>"

text \<open>A store that accepts every write of one send, all at server time \<open>t\<close>.\<close>

definition envOk :: "string \<Rightarrow> string \<Rightarrow> nat \<Rightarrow> send_env" where
  "envOk c m t = \<lparr>newChatId = c, newMessageId = m, setDocTime = t, addDocTime = t,
                   updateDocTime = t, setDocOk = True, addDocOk = True, updateDocOk = True\<rparr>"

text \<open>The one-message batch GiftedChat passes to \<open>onSend\<close> for a typed text.\<close>

definition typed :: "string \<Rightarrow> nat gifted_message list" where
  "typed t = [\<lparr>m_id = ''local'', m_text = t, m_createdAt = None,
               m_user = \<lparr>user_id = ''u1'', name = None, avatar = None\<rparr>\<rparr>]"

text \<open>User u1 has the chat with u2 open, and u2 the chat with u1; no chat exists yet.\<close>

definition twoDevices :: "nat system" where
  "twoDevices = \<lparr>store = emptyStore, propsA = propsTo ''u2'', stateA = freshState userU1,
                  propsB = propsTo ''u1'', stateB = freshState userU2\<rparr>"

text \<open>Both devices resolve before either sends its first message.\<close>

definition raceTrace :: "nat event list" where
  "raceTrace = [Resolve DeviceA, Resolve DeviceB,
                Send DeviceA (envOk ''c1'' ''m1'' 1) (typed ''hi''),
                Send DeviceB (envOk ''c2'' ''m2'' 2) (typed ''hello'')]"



text \<open>Each device alone, on a store with no chat, resolves and sends a first message.\<close>

definition firstSendA :: "nat event list" where
  "firstSendA = [Resolve DeviceA, Send DeviceA (envOk ''c1'' ''m1'' 1) (typed ''hi'')]"

definition firstSendB :: "nat event list" where
  "firstSendB = [Resolve DeviceB, Send DeviceB (envOk ''c2'' ''m2'' 2) (typed ''hi'')]"

text \<open>The store after the first send of device A: one chat of u1 and u2, under the id c1.\<close>

definition oneChatStore :: firestore where
  "oneChatStore = store (run sameInstant firstSendA twoDevices)"




definition userDoc :: "string \<Rightarrow> user_doc" where
  "userDoc n = \<lparr>ud_displayName = Some n, ud_fullName = None, ud_email = None,
                 ud_profileImage = None\<rparr>"

section \<open>Auxiliary lemmas\<close>

lemmas store_defs = setDoc_def addDoc_def updateDoc_def logCall_def

lemma truthy_iff: "truthy x \<longleftrightarrow> (\<exists>c cs. x = Some (c # cs))"
  by (cases x) (auto simp: neq_Nil_conv)

lemma participantsOf_commute: "participantsOf a b = participantsOf b a"
  by (auto simp: participantsOf_def)

lemma chatsQuery_logCall: "chatsQuery ps (logCall c db) = chatsQuery ps db"
  by (simp add: chatsQuery_def logCall_def)

lemma resolveEffect_chatDocId:
  assumes "currentUser st = Some cu" "recipientId props = Some r" "r \<noteq> []"
  shows "chatDocId (fst (resolveEffect toDate props st db)) =
           (case chatsQuery (participantsOf (uid cu) r) db of [] \<Rightarrow> None | (i, d) # rest \<Rightarrow> Some i)"
  using assms
  by (auto simp: resolveEffect_def Let_def chatsQuery_logCall neq_Nil_conv
           split: option.splits list.splits)

lemma resolveEffect_store:
  "chats (snd (resolveEffect toDate props st db)) = chats db \<and>
   chat_messages (snd (resolveEffect toDate props st db)) = chat_messages db"
  by (auto simp: resolveEffect_def Let_def logCall_def split: option.splits list.splits)

lemma resolveEffect_calls:
  "\<exists>rs. calls (snd (resolveEffect toDate props st db)) = calls db @ rs \<and> list_all is_read rs"
  by (auto simp: resolveEffect_def Let_def logCall_def split: option.splits list.splits)

lemma map_fst_summary:
  "fst \<circ> (\<lambda>(i, d). if i = ref then (i, f d) else (i, d)) = fst"
  by (auto simp: fun_eq_iff)

lemma map_fst_update:
  "map fst (AList.update k v al) =
     (if k \<in> set (map fst al) then map fst al else map fst al @ [k])"
  by (induction al) auto

lemma onSend_skips:
  "currentUser st = None \<or> \<not> truthy (recipientId props) \<or> ms = [] \<Longrightarrow>
     onSend env props st db ms = (Returned, st, db)"
  by (auto simp: onSend_def truthy_iff split: option.splits list.splits)

lemma onSend_calls:
  assumes "currentUser st = Some cu" "truthy (recipientId props)" "ms \<noteq> []"
  shows "\<exists>c cs. calls (snd (snd (onSend env props st db ms))) = calls db @ c # cs"
  using assms
  by (auto simp: onSend_def truthy_iff store_defs Let_def split: option.splits list.splits prod.splits outcome.splits)

lemma onSend_chat_ids:
  "map fst (chats (snd (snd (onSend env props st db ms)))) =
     map fst (chats db) @
       (if currentUser st \<noteq> None \<and> truthy (recipientId props) \<and> ms \<noteq> [] \<and>
           \<not> truthy (chatDocId st) \<and> setDocOk env \<and> newChatId env \<notin> set (map fst (chats db))
        then [newChatId env] else [])"
proof (cases "currentUser st = None \<or> \<not> truthy (recipientId props) \<or> ms = []")
  case True
  then show ?thesis using onSend_skips[OF True] by auto
next
  case False
  then show ?thesis
    by (auto simp: onSend_def truthy_iff store_defs Let_def map_fst_summary map_fst_update
      split: option.splits list.splits prod.splits outcome.splits)
qed


lemma chatParticipants_update:
  "map (\<lambda>(i, d). (i, participants d)) (AList.update k v al) =
     AList.update k (participants v) (map (\<lambda>(i, d). (i, participants d)) al)"
  by (induction al) auto

lemma chatParticipants_summary:
  "(\<lambda>(i, d). (i, participants d)) \<circ>
     (\<lambda>(i, d). if i = ref then (i, d\<lparr>lastMessageText := txt, lastMessageTimestamp := t\<rparr>) else (i, d)) =
   (\<lambda>(i, d). (i, participants d))"
  by (auto simp: fun_eq_iff)

lemma onSend_chatParticipants:
  assumes "currentUser st = Some cu" "recipientId props = Some r" "r \<noteq> []"
  shows "chatParticipants (snd (snd (onSend env props st db ms))) =
     (if ms \<noteq> [] \<and> \<not> truthy (chatDocId st) \<and> setDocOk env
      then AList.update (newChatId env) (participantsOf (uid cu) r) (chatParticipants db)
      else chatParticipants db)"
  using assms
  by (auto simp: onSend_def truthy_iff store_defs Let_def chatParticipants_def neq_Nil_conv
        chatParticipants_update chatParticipants_summary
      split: option.splits list.splits prod.splits outcome.splits)

lemma onSend_messages_fail:
  assumes "(\<not> truthy (chatDocId st) \<and> \<not> setDocOk env) \<or> \<not> addDocOk env"
  shows "chat_messages (snd (snd (onSend env props st db ms))) = chat_messages db"
  using assms
  by (auto simp: onSend_def truthy_iff store_defs Let_def
      split: option.splits list.splits prod.splits outcome.splits)

lemma onSend_outcome_fail:
  assumes "currentUser st = Some cu" "truthy (recipientId props)" "ms \<noteq> []"
     "(\<not> truthy (chatDocId st) \<and> \<not> setDocOk env) \<or> \<not> addDocOk env"
  shows "fst (onSend env props st db ms) = Rejected SetDocFailed \<or>
         fst (onSend env props st db ms) = Rejected AddDocFailed"
  using assms
  by (auto simp: onSend_def truthy_iff store_defs Let_def
      split: option.splits list.splits prod.splits outcome.splits)

lemma onSend_appends:
  assumes "currentUser st = Some cu" "truthy (recipientId props)"
     "truthy (chatDocId st) \<or> setDocOk env" "addDocOk env"
  shows "chat_messages (snd (snd (onSend env props st db (m # rest)))) =
           chat_messages db @
             [(case chatDocId st of Some (k # ks) \<Rightarrow> k # ks | _ \<Rightarrow> newChatId env,
               newMessageId env,
               \<lparr>msg_text = m_text m, senderId = uid cu,
                senderName = js_or (displayName cu) (email cu),
                senderImage = js_or (profileImage cu) None,
                createdAtField = Stamp (addDocTime env)\<rparr>)]"
  using assms
  by (auto simp: onSend_def truthy_iff store_defs Let_def
      split: option.splits list.splits prod.splits outcome.splits)

lemma onSend_update_fail:
  assumes "currentUser st = Some cu" "truthy (recipientId props)"
     "truthy (chatDocId st) \<or> setDocOk env" "addDocOk env" "\<not> updateDocOk env"
  shows "fst (onSend env props st db (m # rest)) = Rejected UpdateDocFailed"
  using assms
  by (auto simp: onSend_def truthy_iff store_defs Let_def
      split: option.splits list.splits prod.splits outcome.splits)
















lemma fetchedUsers_ids: "map lu_id (fetchedUsers u docs) = removeAll u (map fst docs)"
  by (induction docs) (auto simp: fetchedUsers_def)

lemma sort_key_Nil_iff: "sort_key f xs = [] \<longleftrightarrow> xs = []"
proof -
  have "length (sort_key f xs) = length xs" by simp
  then show ?thesis by (metis length_0_conv)
qed

lemma chatsQuery_empty_iff:
  "chatsQuery ps db = [] \<longleftrightarrow> (\<forall>(i, d) \<in> set (chats db). participants d \<noteq> ps)"
proof -
  have "chatsQuery ps db = [] \<longleftrightarrow> filter (\<lambda>(i, d). participants d = ps) (chats db) = []"
    by (simp add: chatsQuery_def sort_key_Nil_iff)
  also have "\<dots> \<longleftrightarrow> (\<forall>(i, d) \<in> set (chats db). participants d \<noteq> ps)"
    by (auto simp: filter_empty_conv)
  finally show ?thesis .
qed

lemma chatsQuery_head:
  assumes "chatsQuery ps db = (j, d) # rest"
  shows "(j, d) \<in> set (chats db) \<and> participants d = ps \<and>
         (\<forall>(i, d') \<in> set (chats db). participants d' = ps \<longrightarrow> j \<le> i)"
proof -
  let ?xs = "filter (\<lambda>(i, d). participants d = ps) (chats db)"
  obtain ys where ys: "sort_key fst ?xs = (j, d) # ys"
    using assms by (cases "sort_key fst ?xs") (auto simp: chatsQuery_def)
  have "set (sort_key fst ?xs) = set ?xs" by simp
  then have sets: "set ?xs = insert (j, d) (set ys)" using ys by simp
  have "sorted (map fst (sort_key fst ?xs))" by (rule sorted_sort_key)
  then have "\<forall>z \<in> set ys. j \<le> fst z" using ys by simp
  then have least: "\<forall>z \<in> set ?xs. j \<le> fst z" using sets by auto
  have mem: "(j, d) \<in> set ?xs" using sets by simp
  from mem have 1: "(j, d) \<in> set (chats db) \<and> participants d = ps" by simp
  have 2: "\<forall>(i, d') \<in> set (chats db). participants d' = ps \<longrightarrow> j \<le> i"
  proof (clarify)
    fix i d' assume "(i, d') \<in> set (chats db)" "ps = participants d'"
    then have "(i, d') \<in> set ?xs" by simp
    with least show "j \<le> i" by fastforce
  qed
  show ?thesis using 1 2 by simp
qed

lemma onSend_first_chatDocId:
  assumes "currentUser st = Some cu" "truthy (recipientId props)" "ms \<noteq> []"
    "\<not> truthy (chatDocId st)"
  shows "chatDocId (fst (snd (onSend env props st db ms))) = Some (newChatId env)"
  using assms
  by (auto simp: onSend_def truthy_iff store_defs Let_def
      split: option.splits list.splits prod.splits outcome.splits)

lemma onSend_outcome:
  assumes "currentUser st = Some cu" "truthy (recipientId props)" "ms \<noteq> []"
  shows "fst (onSend env props st db ms) =
     (case chatDocId st of
        Some (k # ks) \<Rightarrow>
          (if \<not> addDocOk env then Rejected AddDocFailed
           else if updateDocOk env \<and> map_of (chats db) (k # ks) \<noteq> None then Returned
           else Rejected UpdateDocFailed)
      | _ \<Rightarrow>
          (if \<not> setDocOk env then Rejected SetDocFailed
           else if \<not> addDocOk env then Rejected AddDocFailed
           else if updateDocOk env then Returned
           else Rejected UpdateDocFailed))"
  using assms
  by (auto simp: onSend_def truthy_iff store_defs Let_def update_conv'
      split: option.splits list.splits prod.splits outcome.splits)

section \<open>The claims\<close>

text \<open>
  C1 (fails on the code). The claim: for any unordered pair of distinct participant ids
  at most one chat document exists in every reachable state, in particular after both
  users resolve and send a first message against a pair with no chat. In the code each
  device that resolved before the other's first send still holds \<open>chatDocId = null\<close>,
  so each \<open>onSend\<close> creates a document under a fresh auto-generated id: after
  \<open>raceTrace\<close> the store holds two chat documents for the pair u1, u2.
\<close>

theorem two_first_sends_create_two_chats:
  "map fst (chatsOfPair ''u1'' ''u2'' (store (run sameInstant raceTrace twoDevices))) = [''c1'', ''c2'']"
  by code_simp

text \<open>
  C2 (amended). The key by which the chat of two users is located, and which a created
  chat document stores, is the sorted \<open>participants\<close> array: a function of the two ids
  alone, the same in either argument order. Resolving (a, b) and (b, a) against the
  same store yields the same \<open>chatDocId\<close>: none exactly when no chat document has
  these participants, and otherwise the least id of such a document. The id under which
  a first send creates the document is the one the store generates for that send, not a
  function of the two ids; the document created stores the same \<open>participants\<close>
  whichever of the two users sends.
\<close>

theorem participants_key_symmetric_chat_id_generated:
  assumes "a \<noteq> []" "b \<noteq> []"
    and "currentUser stA = Some ua" "uid ua = a" "recipientId pA = Some b"
    and "currentUser stB = Some ub" "uid ub = b" "recipientId pB = Some a"
  shows "participantsOf a b = participantsOf b a \<and>
         participantsOf a b = (if a \<le> b then [a, b] else [b, a]) \<and>
         chatDocId (fst (resolveEffect toDate pA stA db)) =
           chatDocId (fst (resolveEffect toDate pB stB db)) \<and>
         (chatDocId (fst (resolveEffect toDate pA stA db)) = None \<longleftrightarrow>
            (\<forall>(i, d) \<in> set (chats db). participants d \<noteq> participantsOf a b)) \<and>
         (\<forall>j. chatDocId (fst (resolveEffect toDate pA stA db)) = Some j \<longrightarrow>
            (\<exists>d. (j, d) \<in> set (chats db) \<and> participants d = participantsOf a b) \<and>
            (\<forall>(i, d) \<in> set (chats db). participants d = participantsOf a b \<longrightarrow> j \<le> i)) \<and>
         (msA \<noteq> [] \<and> \<not> truthy (chatDocId stA) \<and> setDocOk envA \<longrightarrow>
            chatDocId (fst (snd (onSend envA pA stA db msA))) = Some (newChatId envA) \<and>
            map_of (chatParticipants (snd (snd (onSend envA pA stA db msA)))) (newChatId envA) =
              Some (participantsOf a b)) \<and>
         (msB \<noteq> [] \<and> \<not> truthy (chatDocId stB) \<and> setDocOk envB \<longrightarrow>
            chatDocId (fst (snd (onSend envB pB stB db msB))) = Some (newChatId envB) \<and>
            map_of (chatParticipants (snd (snd (onSend envB pB stB db msB)))) (newChatId envB) =
              Some (participantsOf a b))"
proof -
  let ?ps = "participantsOf a b"
  let ?q = "chatsQuery ?ps db"
  have k: "participantsOf b a = ?ps"
    by (rule participantsOf_commute)
  have s: "?ps = (if a \<le> b then [a, b] else [b, a])"
    by (auto simp: participantsOf_def)
  have A: "chatDocId (fst (resolveEffect toDate pA stA db)) =
      (case ?q of [] \<Rightarrow> None | (i, d) # rest \<Rightarrow> Some i)"
    using resolveEffect_chatDocId[of stA ua pA b toDate db] assms by simp
  have B: "chatDocId (fst (resolveEffect toDate pB stB db)) =
      (case ?q of [] \<Rightarrow> None | (i, d) # rest \<Rightarrow> Some i)"
    using resolveEffect_chatDocId[of stB ub pB a toDate db] assms k by simp
  have N: "chatDocId (fst (resolveEffect toDate pA stA db)) = None \<longleftrightarrow>
            (\<forall>(i, d) \<in> set (chats db). participants d \<noteq> ?ps)"
    using A chatsQuery_empty_iff[of ?ps db] by (cases ?q) auto
  have S: "(\<exists>d. (j, d) \<in> set (chats db) \<and> participants d = ?ps) \<and>
            (\<forall>(i, d) \<in> set (chats db). participants d = ?ps \<longrightarrow> j \<le> i)"
    if "chatDocId (fst (resolveEffect toDate pA stA db)) = Some j" for j
  proof -
    from that A obtain d rest where "?q = (j, d) # rest"
      by (cases ?q) auto
    from chatsQuery_head[OF this] show ?thesis by blast
  qed
  have tA: "truthy (recipientId pA)" and tB: "truthy (recipientId pB)"
    using assms by simp_all
  have CA: "chatDocId (fst (snd (onSend envA pA stA db msA))) = Some (newChatId envA) \<and>
            map_of (chatParticipants (snd (snd (onSend envA pA stA db msA)))) (newChatId envA) =
              Some ?ps"
    if "msA \<noteq> []" "\<not> truthy (chatDocId stA)" "setDocOk envA"
    using onSend_first_chatDocId[OF assms(3) tA that(1,2), of envA db]
      onSend_chatParticipants[OF assms(3,5,2), of envA db msA] that assms(4)
    by (simp add: update_conv')
  have CB: "chatDocId (fst (snd (onSend envB pB stB db msB))) = Some (newChatId envB) \<and>
            map_of (chatParticipants (snd (snd (onSend envB pB stB db msB)))) (newChatId envB) =
              Some ?ps"
    if "msB \<noteq> []" "\<not> truthy (chatDocId stB)" "setDocOk envB"
    using onSend_first_chatDocId[OF assms(6) tB that(1,2), of envB db]
      onSend_chatParticipants[OF assms(6,8,1), of envB db msB] that assms(7) k
    by (simp add: update_conv')
  show ?thesis using k s A B N S CA CB by (intro conjI allI impI) auto
qed

theorem participants_key_symmetric_chat_id_generated_witness:
  "participantsOf ''u1'' ''u2'' = [''u1'', ''u2''] \<and>
   participantsOf ''u2'' ''u1'' = [''u1'', ''u2''] \<and>
   chatParticipants oneChatStore = [(''c1'', [''u1'', ''u2''])] \<and>
   chatDocId (fst (resolveEffect sameInstant (propsTo ''u2'') (freshState userU1) oneChatStore)) = Some ''c1'' \<and>
   chatDocId (fst (resolveEffect sameInstant (propsTo ''u1'') (freshState userU2) oneChatStore)) = Some ''c1'' \<and>
   map_of (chatParticipants (snd (snd (onSend (envOk ''c2'' ''m2'' 2) (propsTo ''u2'')
      (freshState userU1) oneChatStore (typed ''hi''))))) ''c2'' = Some [''u1'', ''u2''] \<and>
   map_of (chatParticipants (snd (snd (onSend (envOk ''c3'' ''m3'' 3) (propsTo ''u1'')
      (freshState userU2) oneChatStore (typed ''yo''))))) ''c3'' = Some [''u1'', ''u2'']"
proof -
  have p: "participantsOf ''u1'' ''u2'' = [''u1'', ''u2'']"
    by (simp add: participantsOf_def)
  have c: "chatParticipants oneChatStore = [(''c1'', [''u1'', ''u2''])]"
    by code_simp
  have r: "chatDocId (fst (resolveEffect sameInstant (propsTo ''u2'') (freshState userU1)
             oneChatStore)) = Some ''c1''"
    by code_simp
  have h: "participantsOf ''u1'' ''u2'' = participantsOf ''u2'' ''u1'' \<and>
         participantsOf ''u1'' ''u2'' = (if ''u1'' \<le> ''u2'' then [''u1'', ''u2''] else [''u2'', ''u1'']) \<and>
         chatDocId (fst (resolveEffect sameInstant (propsTo ''u2'') (freshState userU1) oneChatStore)) =
           chatDocId (fst (resolveEffect sameInstant (propsTo ''u1'') (freshState userU2) oneChatStore)) \<and>
         (chatDocId (fst (resolveEffect sameInstant (propsTo ''u2'') (freshState userU1) oneChatStore)) = None \<longleftrightarrow>
            (\<forall>(i, d) \<in> set (chats oneChatStore). participants d \<noteq> participantsOf ''u1'' ''u2'')) \<and>
         (\<forall>j. chatDocId (fst (resolveEffect sameInstant (propsTo ''u2'') (freshState userU1) oneChatStore)) = Some j \<longrightarrow>
            (\<exists>d. (j, d) \<in> set (chats oneChatStore) \<and> participants d = participantsOf ''u1'' ''u2'') \<and>
            (\<forall>(i, d) \<in> set (chats oneChatStore). participants d = participantsOf ''u1'' ''u2'' \<longrightarrow> j \<le> i)) \<and>
         (typed ''hi'' \<noteq> [] \<and> \<not> truthy (chatDocId (freshState userU1)) \<and> setDocOk (envOk ''c2'' ''m2'' 2) \<longrightarrow>
            chatDocId (fst (snd (onSend (envOk ''c2'' ''m2'' 2) (propsTo ''u2'') (freshState userU1) oneChatStore (typed ''hi'')))) = Some (newChatId (envOk ''c2'' ''m2'' 2)) \<and>
            map_of (chatParticipants (snd (snd (onSend (envOk ''c2'' ''m2'' 2) (propsTo ''u2'') (freshState userU1) oneChatStore (typed ''hi''))))) (newChatId (envOk ''c2'' ''m2'' 2)) =
              Some (participantsOf ''u1'' ''u2'')) \<and>
         (typed ''yo'' \<noteq> [] \<and> \<not> truthy (chatDocId (freshState userU2)) \<and> setDocOk (envOk ''c3'' ''m3'' 3) \<longrightarrow>
            chatDocId (fst (snd (onSend (envOk ''c3'' ''m3'' 3) (propsTo ''u1'') (freshState userU2) oneChatStore (typed ''yo'')))) = Some (newChatId (envOk ''c3'' ''m3'' 3)) \<and>
            map_of (chatParticipants (snd (snd (onSend (envOk ''c3'' ''m3'' 3) (propsTo ''u1'') (freshState userU2) oneChatStore (typed ''yo''))))) (newChatId (envOk ''c3'' ''m3'' 3)) =
              Some (participantsOf ''u1'' ''u2''))"
    by (rule participants_key_symmetric_chat_id_generated[where ua = userU1 and ub = userU2])
       (simp_all add: freshState_def userU1_def userU2_def propsTo_def)
  have g: "typed ''hi'' \<noteq> [] \<and> \<not> truthy (chatDocId (freshState userU1)) \<and> setDocOk (envOk ''c2'' ''m2'' 2) \<and>
           typed ''yo'' \<noteq> [] \<and> \<not> truthy (chatDocId (freshState userU2)) \<and> setDocOk (envOk ''c3'' ''m3'' 3) \<and>
           newChatId (envOk ''c2'' ''m2'' 2) = ''c2'' \<and> newChatId (envOk ''c3'' ''m3'' 3) = ''c3''"
    by (simp add: typed_def freshState_def envOk_def)
  show ?thesis using h g p c r by metis
qed

text \<open>
  C2 as stated fails for the key a record is created under: on two occasions with no
  chat of the pair u1, u2, resolving and sending first from u1 creates the document
  under the id c1, and from u2 under the id c2.
\<close>

theorem same_pair_created_under_different_ids_counterexample:
  "chatDocId (stateA (run sameInstant firstSendA twoDevices)) = Some ''c1'' \<and>
   chatParticipants (store (run sameInstant firstSendA twoDevices)) = [(''c1'', [''u1'', ''u2''])] \<and>
   chatDocId (stateB (run sameInstant firstSendB twoDevices)) = Some ''c2'' \<and>
   chatParticipants (store (run sameInstant firstSendB twoDevices)) = [(''c2'', [''u1'', ''u2''])]"
  by code_simp

text \<open>
  C3 (amended). \<open>onSend\<close> does not look at the text. It makes no store call exactly
  when there is no current user, the recipient id is absent or empty, or the batch is
  empty; otherwise, whenever the chat document exists or is created and \<open>addDoc\<close>
  succeeds, the message is appended with the text as given, be it empty or blank.
\<close>

theorem send_does_not_validate_text:
  "(calls (snd (snd (onSend env props st db ms))) = calls db \<longleftrightarrow>
      currentUser st = None \<or> \<not> truthy (recipientId props) \<or> ms = []) \<and>
   (currentUser st \<noteq> None \<and> truthy (recipientId props) \<and> ms \<noteq> [] \<and>
      (truthy (chatDocId st) \<or> setDocOk env) \<and> addDocOk env \<longrightarrow>
      (\<exists>ref d. chat_messages (snd (snd (onSend env props st db ms))) =
                 chat_messages db @ [(ref, newMessageId env, d)] \<and> msg_text d = m_text (hd ms)))"
proof -
  have 1: "calls (snd (snd (onSend env props st db ms))) = calls db \<longleftrightarrow>
      currentUser st = None \<or> \<not> truthy (recipientId props) \<or> ms = []"
  proof (cases "currentUser st = None \<or> \<not> truthy (recipientId props) \<or> ms = []")
    case True
    then show ?thesis using onSend_skips[OF True] by simp
  next
    case False
    then obtain cu where "currentUser st = Some cu" "truthy (recipientId props)" "ms \<noteq> []"
      by auto
    from onSend_calls[OF this, of env db] False show ?thesis by auto
  qed
  have 2: "\<exists>ref d. chat_messages (snd (snd (onSend env props st db ms))) =
                 chat_messages db @ [(ref, newMessageId env, d)] \<and> msg_text d = m_text (hd ms)"
    if u: "currentUser st \<noteq> None" and r: "truthy (recipientId props)" and n: "ms \<noteq> []"
      and c: "truthy (chatDocId st) \<or> setDocOk env" and a: "addDocOk env"
  proof -
    from u obtain cu where cu: "currentUser st = Some cu" by auto
    from n obtain m rest where ms: "ms = m # rest" by (cases ms) auto
    show ?thesis
      using onSend_appends[OF cu r c a, of db m rest] ms by simp
  qed
  show ?thesis using 1 2 by blast
qed

theorem send_does_not_validate_text_witness:
  "calls (snd (snd (onSend (envOk ''c1'' ''m1'' 1) (propsTo ''u2'') (freshState userU1) emptyStore
       (typed ''   '')))) \<noteq> calls emptyStore \<and>
   loggedTexts (snd (snd (onSend (envOk ''c1'' ''m1'' 1) (propsTo ''u2'') (freshState userU1)
       emptyStore (typed ''   '')))) = [(''c1'', ''m1'', ''   '')]"
proof -
  have l: "loggedTexts (snd (snd (onSend (envOk ''c1'' ''m1'' 1) (propsTo ''u2'')
       (freshState userU1) emptyStore (typed ''   '')))) = [(''c1'', ''m1'', ''   '')]"
    by code_simp
  have "calls (snd (snd (onSend (envOk ''c1'' ''m1'' 1) (propsTo ''u2'') (freshState userU1)
       emptyStore (typed ''   '')))) \<noteq> calls emptyStore"
    using send_does_not_validate_text[of "envOk ''c1'' ''m1'' 1" "propsTo ''u2''"
        "freshState userU1" emptyStore "typed ''   ''"]
    by (simp add: envOk_def propsTo_def freshState_def typed_def)
  then show ?thesis using l by simp
qed

text \<open>
  C3 as stated fails: a send whose text is three spaces returns normally after
  \<open>setDoc\<close>, \<open>addDoc\<close> and \<open>updateDoc\<close>, and the blank message is in the log.
\<close>

theorem blank_text_is_sent_counterexample:
  "fst (onSend (envOk ''c1'' ''m1'' 1) (propsTo ''u2'') (freshState userU1) emptyStore (typed ''   ''))
     = Returned \<and>
   loggedTexts (snd (snd (onSend (envOk ''c1'' ''m1'' 1) (propsTo ''u2'') (freshState userU1)
        emptyStore (typed ''   '')))) = [(''c1'', ''m1'', ''   '')] \<and>
   calls (snd (snd (onSend (envOk ''c1'' ''m1'' 1) (propsTo ''u2'') (freshState userU1)
        emptyStore (typed ''   '')))) = [CallSetDoc ''c1'', CallAddDoc ''c1'', CallUpdateDoc ''c1'']"
  by code_simp

text \<open>
  C4 (amended). For a non-empty batch, \<open>onSend\<close> returns at once, with no error, no
  state change and no store call, exactly when there is no current user or the recipient
  id is absent or empty. The two ids are never compared: for every current user and
  every non-empty recipient id, equal to the user's own or not, the outcome is decided
  by the store calls alone and a first send stores the sorted pair of the two ids, which
  for equal ids is that id twice.
\<close>

theorem send_guard_never_compares_ids:
  assumes "ms \<noteq> []"
  shows "(onSend env props st db ms = (Returned, st, db) \<longleftrightarrow>
            currentUser st = None \<or> \<not> truthy (recipientId props)) \<and>
         (currentUser st = Some cu \<and> recipientId props = Some r \<and> r \<noteq> [] \<longrightarrow>
            fst (onSend env props st db ms) =
              (case chatDocId st of
                 Some (k # ks) \<Rightarrow>
                   (if \<not> addDocOk env then Rejected AddDocFailed
                    else if updateDocOk env \<and> map_of (chats db) (k # ks) \<noteq> None then Returned
                    else Rejected UpdateDocFailed)
               | _ \<Rightarrow>
                   (if \<not> setDocOk env then Rejected SetDocFailed
                    else if \<not> addDocOk env then Rejected AddDocFailed
                    else if updateDocOk env then Returned
                    else Rejected UpdateDocFailed)) \<and>
            chatParticipants (snd (snd (onSend env props st db ms))) =
              (if \<not> truthy (chatDocId st) \<and> setDocOk env
               then AList.update (newChatId env) (participantsOf (uid cu) r) (chatParticipants db)
               else chatParticipants db)) \<and>
         participantsOf r r = [r, r]"
proof -
  have 1: "onSend env props st db ms = (Returned, st, db) \<longleftrightarrow>
            currentUser st = None \<or> \<not> truthy (recipientId props)"
  proof (cases "currentUser st = None \<or> \<not> truthy (recipientId props)")
    case True
    then show ?thesis using onSend_skips[of st props ms env db] by auto
  next
    case False
    then obtain cu where "currentUser st = Some cu" "truthy (recipientId props)"
      by auto
    from onSend_calls[OF this assms, of env db] False show ?thesis by auto
  qed
  have 2: "fst (onSend env props st db ms) =
              (case chatDocId st of
                 Some (k # ks) \<Rightarrow>
                   (if \<not> addDocOk env then Rejected AddDocFailed
                    else if updateDocOk env \<and> map_of (chats db) (k # ks) \<noteq> None then Returned
                    else Rejected UpdateDocFailed)
               | _ \<Rightarrow>
                   (if \<not> setDocOk env then Rejected SetDocFailed
                    else if \<not> addDocOk env then Rejected AddDocFailed
                    else if updateDocOk env then Returned
                    else Rejected UpdateDocFailed)) \<and>
            chatParticipants (snd (snd (onSend env props st db ms))) =
              (if \<not> truthy (chatDocId st) \<and> setDocOk env
               then AList.update (newChatId env) (participantsOf (uid cu) r) (chatParticipants db)
               else chatParticipants db)"
    if u: "currentUser st = Some cu" and r: "recipientId props = Some r" and n: "r \<noteq> []"
  proof -
    have t: "truthy (recipientId props)" using r n by simp
    show ?thesis
      using onSend_outcome[OF u t assms, of env db]
        onSend_chatParticipants[OF u r n, of env db ms] assms by simp
  qed
  have 3: "participantsOf r r = [r, r]"
    by (simp add: participantsOf_def)
  show ?thesis using 1 2 3 by blast
qed

theorem send_guard_never_compares_ids_witness:
  "onSend (envOk ''c1'' ''m1'' 1) (propsTo []) (freshState userU1) emptyStore (typed ''hi'') =
     (Returned, freshState userU1, emptyStore) \<and>
   fst (onSend (envOk ''c5'' ''m5'' 5) (propsTo ''u2'') (freshState userU2) emptyStore (typed ''yo''))
     = Returned \<and>
   chatParticipants (snd (snd (onSend (envOk ''c5'' ''m5'' 5) (propsTo ''u2'') (freshState userU2)
     emptyStore (typed ''yo'')))) = [(''c5'', [''u2'', ''u2''])]"
proof -
  have n: "typed ''hi'' \<noteq> []" "typed ''yo'' \<noteq> []" by (simp_all add: typed_def)
  have a: "onSend (envOk ''c1'' ''m1'' 1) (propsTo []) (freshState userU1) emptyStore
             (typed ''hi'') = (Returned, freshState userU1, emptyStore)"
    using send_guard_never_compares_ids[OF n(1), of "envOk ''c1'' ''m1'' 1" "propsTo []"
      "freshState userU1" emptyStore]
    by (simp add: propsTo_def)
  have b: "fst (onSend (envOk ''c5'' ''m5'' 5) (propsTo ''u2'') (freshState userU2) emptyStore
             (typed ''yo'')) = Returned \<and>
           chatParticipants (snd (snd (onSend (envOk ''c5'' ''m5'' 5) (propsTo ''u2'')
             (freshState userU2) emptyStore (typed ''yo'')))) = [(''c5'', [''u2'', ''u2''])]"
    using send_guard_never_compares_ids[OF n(2), of "envOk ''c5'' ''m5'' 5" "propsTo ''u2''"
      "freshState userU2" emptyStore userU2 "''u2''"]
    by (simp add: propsTo_def freshState_def userU2_def envOk_def emptyStore_def
          chatParticipants_def)
  show ?thesis using a b by simp
qed

text \<open>
  C4 as stated fails: with the recipient id equal to the current user's id the send
  returns normally and creates a chat document whose participants are that id twice.
\<close>

theorem self_pair_is_accepted_counterexample:
  "fst (onSend (envOk ''c1'' ''m1'' 1) (propsTo ''u1'') (freshState userU1) emptyStore (typed ''hi''))
     = Returned \<and>
   chatParticipants (snd (snd (onSend (envOk ''c1'' ''m1'' 1) (propsTo ''u1'') (freshState userU1)
        emptyStore (typed ''hi'')))) = [(''c1'', [''u1'', ''u1''])]"
  by code_simp

text \<open>
  C5. When a send reaches the store and the create step (\<open>setDoc\<close>, on a first send)
  or the append step (\<open>addDoc\<close>) fails, \<open>onSend\<close> ends in a rejection carrying
  that failure, and the message log is what it was before the send.
\<close>

theorem failed_create_or_append_fails_send:
  assumes "currentUser st = Some cu" "truthy (recipientId props)" "ms \<noteq> []"
    and "(\<not> truthy (chatDocId st) \<and> \<not> setDocOk env) \<or> \<not> addDocOk env"
  shows "(fst (onSend env props st db ms) = Rejected SetDocFailed \<or>
          fst (onSend env props st db ms) = Rejected AddDocFailed) \<and>
         chat_messages (snd (snd (onSend env props st db ms))) = chat_messages db"
  using onSend_outcome_fail[OF assms] onSend_messages_fail[OF assms(4)] by simp


theorem failed_create_or_append_fails_send_witness:
  "fst (onSend ((envOk ''c1'' ''m1'' 1)\<lparr>addDocOk := False\<rparr>) (propsTo ''u2'') (freshState userU1)
          emptyStore (typed ''hi'')) = Rejected AddDocFailed \<and>
   chat_messages (snd (snd (onSend ((envOk ''c1'' ''m1'' 1)\<lparr>addDocOk := False\<rparr>) (propsTo ''u2'')
          (freshState userU1) emptyStore (typed ''hi'')))) = []"
proof -
  have o: "fst (onSend ((envOk ''c1'' ''m1'' 1)\<lparr>addDocOk := False\<rparr>) (propsTo ''u2'')
          (freshState userU1) emptyStore (typed ''hi'')) = Rejected AddDocFailed"
    by code_simp
  have "chat_messages (snd (snd (onSend ((envOk ''c1'' ''m1'' 1)\<lparr>addDocOk := False\<rparr>)
          (propsTo ''u2'') (freshState userU1) emptyStore (typed ''hi'')))) = chat_messages emptyStore"
    using failed_create_or_append_fails_send[of "freshState userU1" userU1 "propsTo ''u2''"
        "typed ''hi''" "(envOk ''c1'' ''m1'' 1)\<lparr>addDocOk := False\<rparr>" emptyStore]
    by (simp add: freshState_def propsTo_def typed_def envOk_def)
  then show ?thesis using o by (simp add: emptyStore_def)
qed




text \<open>
  C7. The resolving effect leaves the chat documents and the message log unchanged and
  issues only read calls (the chats query and the messages listener). The ids of the
  chat documents after \<open>onSend\<close> are those before it, followed by the new id exactly
  when the send reaches the store with no \<open>chatDocId\<close> held (a first send) and
  \<open>setDoc\<close> succeeds.
\<close>

theorem resolve_never_writes:
  "chats (snd (resolveEffect toDate props st db)) = chats db \<and>
   chat_messages (snd (resolveEffect toDate props st db)) = chat_messages db \<and>
   (\<exists>rs. calls (snd (resolveEffect toDate props st db)) = calls db @ rs \<and> list_all is_read rs) \<and>
   map fst (chats (snd (snd (onSend env props st db ms)))) =
     map fst (chats db) @
       (if currentUser st \<noteq> None \<and> truthy (recipientId props) \<and> ms \<noteq> [] \<and>
           \<not> truthy (chatDocId st) \<and> setDocOk env \<and> newChatId env \<notin> set (map fst (chats db))
        then [newChatId env] else [])"
  using resolveEffect_store[of toDate props st db] resolveEffect_calls[of toDate props st db]
    onSend_chat_ids[of env props st db ms]
  by blast

theorem resolve_never_writes_witness:
  "chats (snd (resolveEffect sameInstant (propsTo ''u2'') (freshState userU1) emptyStore)) = [] \<and>
   chat_messages (snd (resolveEffect sameInstant (propsTo ''u2'') (freshState userU1) emptyStore)) = [] \<and>
   map fst (chats (snd (snd (onSend (envOk ''c1'' ''m1'' 1) (propsTo ''u2'') (freshState userU1)
      emptyStore (typed ''hi''))))) = [''c1'']"
  using resolve_never_writes[of sameInstant "propsTo ''u2''" "freshState userU1" emptyStore
      "envOk ''c1'' ''m1'' 1" "typed ''hi''"]
  by (simp add: freshState_def propsTo_def typed_def envOk_def emptyStore_def)

text \<open>
  C8 (amended). When the create and append steps of a send succeed and \<open>updateDoc\<close>
  fails, \<open>onSend\<close> ends in a rejection carrying that failure, although the message
  has been appended to the log.
\<close>

theorem failed_summary_update_fails_send:
  assumes "currentUser st = Some cu" "truthy (recipientId props)" "ms \<noteq> []"
    and "truthy (chatDocId st) \<or> setDocOk env" "addDocOk env" "\<not> updateDocOk env"
  shows "fst (onSend env props st db ms) = Rejected UpdateDocFailed \<and>
         (\<exists>ref d. chat_messages (snd (snd (onSend env props st db ms))) =
                 chat_messages db @ [(ref, newMessageId env, d)] \<and> msg_text d = m_text (hd ms))"
proof -
  obtain m rest where ms: "ms = m # rest" using assms(3) by (cases ms) auto
  show ?thesis
    using onSend_update_fail[OF assms(1,2,4,5,6), of db m rest]
      onSend_appends[OF assms(1,2,4,5), of db m rest] ms by simp
qed

theorem failed_summary_update_fails_send_witness:
  "fst (onSend ((envOk ''c7'' ''m7'' 3)\<lparr>updateDocOk := False\<rparr>) (propsTo ''u1'') (freshState userU2)
          emptyStore (typed ''yo'')) = Rejected UpdateDocFailed \<and>
   loggedTexts (snd (snd (onSend ((envOk ''c7'' ''m7'' 3)\<lparr>updateDocOk := False\<rparr>) (propsTo ''u1'')
          (freshState userU2) emptyStore (typed ''yo'')))) = [(''c7'', ''m7'', ''yo'')]"
proof -
  have l: "loggedTexts (snd (snd (onSend ((envOk ''c7'' ''m7'' 3)\<lparr>updateDocOk := False\<rparr>)
          (propsTo ''u1'') (freshState userU2) emptyStore (typed ''yo'')))) = [(''c7'', ''m7'', ''yo'')]"
    by code_simp
  have "fst (onSend ((envOk ''c7'' ''m7'' 3)\<lparr>updateDocOk := False\<rparr>) (propsTo ''u1'')
          (freshState userU2) emptyStore (typed ''yo'')) = Rejected UpdateDocFailed"
    using failed_summary_update_fails_send[of "freshState userU2" userU2 "propsTo ''u1''"
        "typed ''yo''" "(envOk ''c7'' ''m7'' 3)\<lparr>updateDocOk := False\<rparr>" emptyStore]
    by (simp add: freshState_def propsTo_def typed_def envOk_def)
  then show ?thesis using l by simp
qed

text \<open>
  C8 as stated fails: a first send whose \<open>updateDoc\<close> is refused is rejected, not
  fulfilled, with its message in the log.
\<close>

theorem failed_summary_update_rejects_counterexample:
  "fst (onSend ((envOk ''c1'' ''m1'' 1)\<lparr>updateDocOk := False\<rparr>) (propsTo ''u2'') (freshState userU1)
          emptyStore (typed ''hi'')) = Rejected UpdateDocFailed \<and>
   loggedTexts (snd (snd (onSend ((envOk ''c1'' ''m1'' 1)\<lparr>updateDocOk := False\<rparr>)
          (propsTo ''u2'') (freshState userU1) emptyStore (typed ''hi'')))) = [(''c1'', ''m1'', ''hi'')]"
  by code_simp



text \<open>
  C10. For an authenticated user and any snapshot of the users collection, the ids of
  the listed users are the snapshot's ids with every occurrence of the user's own id
  removed, in the snapshot's order; the user's own id is not among them.
\<close>

theorem new_chat_list_excludes_current_user:
  assumes "u \<noteq> []"
  shows "map lu_id (users (fetchUsers (Some u) (Snapshot docs) st)) = removeAll u (map fst docs) \<and>
         u \<notin> set (map lu_id (users (fetchUsers (Some u) (Snapshot docs) st)))"
proof -
  from assms obtain c cs where u: "u = c # cs" by (cases u) auto
  have "users (fetchUsers (Some u) (Snapshot docs) st) = fetchedUsers u docs"
    by (simp add: fetchUsers_def u)
  then show ?thesis by (simp add: fetchedUsers_ids)
qed

theorem new_chat_list_excludes_current_user_witness:
  "''u1'' \<noteq> [] \<and>
   map lu_id (users (fetchUsers (Some ''u1'')
      (Snapshot [(''u0'', userDoc ''Al''), (''u1'', userDoc ''Ann''), (''u2'', userDoc ''Bob'')])
      \<lparr>loading = True, users = []\<rparr>)) = [''u0'', ''u2'']"
  using new_chat_list_excludes_current_user[of "''u1''"
      "[(''u0'', userDoc ''Al''), (''u1'', userDoc ''Ann''), (''u2'', userDoc ''Bob'')]"
      "\<lparr>loading = True, users = []\<rparr>"]
  by simp

end
